theory Spec2Isabelle
  imports Complex_Main "HOL-Library.Char_ord" "HOL-Library.List_Lexorder"
begin

section \<open>Data model\<close>

text \<open>
  The script \<^verbatim>\<open>housing_analysis.py\<close> works on one pandas DataFrame. A column holds
  values of a single type: numbers (int64 or float64, read here as exact reals) or
  strings (object dtype). A missing entry (NaN, None) is \<open>None\<close>. The frame is the
  ordered list of its named columns.
\<close>

datatype column = NumCol "real option list" | StrCol "string option list"

type_synonym table = "(string \<times> column) list"

fun column_len :: "column \<Rightarrow> nat" where
  "column_len (NumCol xs) = length xs"
| "column_len (StrCol xs) = length xs"

definition columns :: "table \<Rightarrow> string list" where
  \<comment> \<open>\<^verbatim>\<open>df.columns\<close>\<close>
  "columns df = map fst df"

definition nrows :: "table \<Rightarrow> nat" where
  \<comment> \<open>\<^verbatim>\<open>df.shape[0]\<close>\<close>
  "nrows df = (case df of [] \<Rightarrow> 0 | (_, c) # _ \<Rightarrow> column_len c)"


text \<open>
  Exceptions are values. \<open>KeyError_missing\<close> is the \<^verbatim>\<open>KeyError\<close> of
  \<^verbatim>\<open>validate_columns\<close>; it carries the list \<^verbatim>\<open>missing\<close> that the message
  \<^verbatim>\<open>f"Missing required columns: {missing}"\<close> prints. \<open>KeyError_column\<close> is the
  \<^verbatim>\<open>KeyError\<close> of pandas for a column that is not in the frame. \<open>ParserError\<close> stands
  for whatever \<^verbatim>\<open>pd.read_csv\<close> raises.
\<close>

datatype error =
    FileNotFoundError string
  | ParserError string
  | KeyError_missing "string list"
  | KeyError_column string
  | TypeError
  | ValueError

text \<open>
  What the program can see and change besides the frame: the console, the files of the
  working directory and the figures shown on the display.
\<close>

datatype figure = Figure (fig_x: column) (fig_y: column) (fig_xlabel: string) (fig_ylabel: string)
  (fig_title: string)

datatype file_content = TextFile string | ImageFile figure

text \<open>
  Floating-point results: a finite number, an infinity, or NaN. Finite arithmetic is
  exact; the special values follow IEEE 754.
\<close>

datatype fl = Fin real | PInf | NInf | NaN

datatype series =
    NumIndexed "(real \<times> fl) list"
  | StrIndexed "(string \<times> fl) list"

text \<open>
  A printed line is a list of fragments; a fragment names the value that is printed and
  the format it is printed in, not its characters.
\<close>

datatype frag =
    Lit string
  | NatF nat
  | IntF int
  | NamesF "string list"
  | FrameF table
  | CountsF "(string \<times> nat) list"
  | SeriesF series
  | CurrencyF fl
  | Fixed4F fl

type_synonym line = "frag list"

record world =
  stdout :: "line list"
  files :: "string \<rightharpoonup> file_content"
  shown :: "figure list"

text \<open>
  A function that receives \<^verbatim>\<open>df\<close> receives a reference to the DataFrame object and
  could change it, so the state such a function runs in holds the frame next to the world.
\<close>

record session =
  frame :: table
  env :: world

type_synonym 'a prog = "session \<Rightarrow> (error + 'a) \<times> session"

section \<open>Operations of pandas and numpy that the script calls\<close>

definition getitem :: "table \<Rightarrow> string \<Rightarrow> error + column" where
  \<comment> \<open>\<^verbatim>\<open>df[name]\<close>\<close>
  "getitem df name = (case map_of df name of None \<Rightarrow> Inl (KeyError_column name) | Some c \<Rightarrow> Inr c)"

fun dropna :: "'a option list \<Rightarrow> 'a list" where
  "dropna [] = []"
| "dropna (None # xs) = dropna xs"
| "dropna (Some x # xs) = x # dropna xs"

fun fdiv :: "fl \<Rightarrow> fl \<Rightarrow> fl" where
  "fdiv NaN _ = NaN"
| "fdiv _ NaN = NaN"
| "fdiv (Fin a) (Fin b) =
     (if b \<noteq> 0 then Fin (a / b) else if a = 0 then NaN else if 0 < a then PInf else NInf)"
| "fdiv (Fin a) _ = Fin 0"
| "fdiv PInf (Fin b) = (if b < 0 then NInf else PInf)"
| "fdiv NInf (Fin b) = (if b < 0 then PInf else NInf)"
| "fdiv _ _ = NaN"

fun fsub :: "fl \<Rightarrow> fl \<Rightarrow> fl" where
  "fsub NaN _ = NaN"
| "fsub _ NaN = NaN"
| "fsub (Fin a) (Fin b) = Fin (a - b)"
| "fsub (Fin a) PInf = NInf"
| "fsub (Fin a) NInf = PInf"
| "fsub PInf PInf = NaN"
| "fsub PInf _ = PInf"
| "fsub NInf NInf = NaN"
| "fsub NInf _ = NInf"

fun fsqrt :: "fl \<Rightarrow> fl" where
  "fsqrt (Fin a) = (if a < 0 then NaN else Fin (sqrt a))"
| "fsqrt PInf = PInf"
| "fsqrt NInf = NaN"
| "fsqrt NaN = NaN"

fun clip :: "fl \<Rightarrow> fl" where
  \<comment> \<open>\<^verbatim>\<open>np.clip(c, -1, 1)\<close>\<close>
  "clip (Fin a) = Fin (max (- 1) (min 1 a))"
| "clip PInf = Fin 1"
| "clip NInf = Fin (- 1)"
| "clip NaN = NaN"

definition series_mean :: "real option list \<Rightarrow> fl" where
  \<comment> \<open>\<^verbatim>\<open>Series.mean()\<close>, \<^verbatim>\<open>skipna=True\<close>: the sum of the values that are present over their
      count, NaN when there is none.\<close>
  "series_mean xs =
     (let vs = dropna xs; count = length vs
      in if 0 < count then Fin (sum_list vs / real count) else NaN)"

definition group_values :: "'k option list \<Rightarrow> 'v list \<Rightarrow> 'k \<Rightarrow> 'v list" where
  \<comment> \<open>the values of the rows whose key is \<open>k\<close>\<close>
  "group_values keys vals k = map snd (filter (\<lambda>(k', v). k' = Some k) (zip keys vals))"

definition groupby_mean :: "('k::linorder) option list \<Rightarrow> real option list \<Rightarrow> ('k \<times> fl) list" where
  \<comment> \<open>\<^verbatim>\<open>df.groupby(key)[value].mean()\<close> with the defaults \<^verbatim>\<open>sort=True\<close>, \<^verbatim>\<open>dropna=True\<close>:
      one group for each key that is present, in the order of the keys.\<close>
  "groupby_mean keys vals =
     map (\<lambda>k. (k, series_mean (group_values keys vals k))) (sort (remdups (dropna keys)))"

definition sort_index :: "(('k::linorder) \<times> 'v) list \<Rightarrow> ('k \<times> 'v) list" where
  \<comment> \<open>\<^verbatim>\<open>Series.sort_index()\<close>\<close>
  "sort_index items = sort_key fst items"

definition eq_mask :: "column \<Rightarrow> string \<Rightarrow> bool list" where
  \<comment> \<open>\<^verbatim>\<open>df[name] == label\<close>: a missing entry and a number are not equal to a string.\<close>
  "eq_mask c label =
     (case c of StrCol xs \<Rightarrow> map (\<lambda>x. x = Some label) xs | NumCol xs \<Rightarrow> map (\<lambda>_. False) xs)"

definition loc_rows :: "bool list \<Rightarrow> 'a list \<Rightarrow> 'a list" where
  \<comment> \<open>the entries of a column at the rows where the mask is true\<close>
  "loc_rows msk xs = map snd (filter fst (zip msk xs))"

definition loc_mean :: "table \<Rightarrow> bool list \<Rightarrow> string \<Rightarrow> error + fl" where
  \<comment> \<open>\<^verbatim>\<open>df.loc[mask, name].mean()\<close>; the mean of a column of strings raises.\<close>
  "loc_mean df msk name =
     (case getitem df name of
        Inl e \<Rightarrow> Inl e
      | Inr (StrCol _) \<Rightarrow> Inl TypeError
      | Inr (NumCol xs) \<Rightarrow> Inr (series_mean (loc_rows msk xs)))"

fun pairwise_complete :: "real option list \<Rightarrow> real option list \<Rightarrow> (real \<times> real) list" where
  \<comment> \<open>\<^verbatim>\<open>valid = notna(a) & notna(b)\<close>; \<^verbatim>\<open>a[valid], b[valid]\<close>\<close>
  "pairwise_complete (Some x # xs) (Some y # ys) = (x, y) # pairwise_complete xs ys"
| "pairwise_complete (_ # xs) (_ # ys) = pairwise_complete xs ys"
| "pairwise_complete _ _ = []"

definition np_corrcoef :: "real list \<Rightarrow> real list \<Rightarrow> fl" where
  \<comment> \<open>\<^verbatim>\<open>np.corrcoef(a, b)[0, 1]\<close>: the covariance matrix of \<^verbatim>\<open>np.cov\<close> with \<open>n - 1\<close>
      degrees of freedom, divided by the two standard deviations, clipped to \<open>[-1, 1]\<close>.\<close>
  "np_corrcoef a b =
     (let n = length a in
      if n = 0 then NaN
      else
        let avg_a = sum_list a / real n;
            avg_b = sum_list b / real n;
            da = map (\<lambda>x. x - avg_a) a;
            db = map (\<lambda>y. y - avg_b) b;
            fact = Fin (real (n - 1));
            c_aa = fdiv (Fin (sum_list (map2 (*) da da))) fact;
            c_ab = fdiv (Fin (sum_list (map2 (*) da db))) fact;
            c_bb = fdiv (Fin (sum_list (map2 (*) db db))) fact
        in clip (fdiv (fdiv c_ab (fsqrt c_aa)) (fsqrt c_bb)))"

definition nancorr :: "real option list \<Rightarrow> real option list \<Rightarrow> fl" where
  \<comment> \<open>\<^verbatim>\<open>nanops.nancorr\<close> with \<^verbatim>\<open>method="pearson"\<close> and \<^verbatim>\<open>min_periods = 1\<close>\<close>
  "nancorr xs ys =
     (let ps = pairwise_complete xs ys
      in if length ps < 1 then NaN else np_corrcoef (map fst ps) (map snd ps))"

definition series_corr :: "column \<Rightarrow> column \<Rightarrow> error + fl" where
  \<comment> \<open>\<^verbatim>\<open>a.corr(b)\<close>: NaN for two empty series; otherwise both are converted to float,
      which a column of strings is not.\<close>
  "series_corr a b =
     (if min (column_len a) (column_len b) = 0 then Inr NaN
      else case (a, b) of
        (NumCol xs, NumCol ys) \<Rightarrow> Inr (nancorr xs ys)
      | _ \<Rightarrow> Inl ValueError)"

section \<open>Loader\<close>


section \<open>Reporter\<close>

definition print :: "line \<Rightarrow> session \<Rightarrow> session" where
  "print l s = s\<lparr>env := (env s)\<lparr>stdout := stdout (env s) @ [l]\<rparr>\<rparr>"

fun head_col :: "column \<Rightarrow> column" where
  "head_col (NumCol xs) = NumCol (take 5 xs)"
| "head_col (StrCol xs) = StrCol (take 5 xs)"

definition head :: "table \<Rightarrow> table" where
  \<comment> \<open>\<^verbatim>\<open>df.head()\<close>\<close>
  "head df = map (\<lambda>(name, c). (name, head_col c)) df"

fun isna_count :: "column \<Rightarrow> nat" where
  "isna_count (NumCol xs) = length (filter (\<lambda>x. x = None) xs)"
| "isna_count (StrCol xs) = length (filter (\<lambda>x. x = None) xs)"

definition isna_sum :: "table \<Rightarrow> (string \<times> nat) list" where
  \<comment> \<open>\<^verbatim>\<open>df.isna().sum()\<close>\<close>
  "isna_sum df = map (\<lambda>(name, c). (name, isna_count c)) df"

definition print_dataset_overview :: "session \<Rightarrow> session" where
  "print_dataset_overview s0 =
     (let s1 = print [Lit ''=== Dataset Overview ===''] s0;
          s2 = print [Lit ''Rows: '', NatF (nrows (frame s1))] s1;
          s3 = print [Lit ''Columns: '', NatF (length (frame s2))] s2;
          s4 = print [Lit (CHR 0x0A # ''Column names:'')] s3;
          s5 = print [NamesF (columns (frame s4))] s4;
          s6 = print [Lit (CHR 0x0A # ''First 5 rows:'')] s5;
          s7 = print [FrameF (head (frame s6))] s6;
          s8 = print [Lit (CHR 0x0A # ''Missing values per column:'')] s7;
          s9 = print [CountsF (isna_sum (frame s8))] s8
      in print [] s9)"


section \<open>Validator\<close>

definition validate_columns :: "string list \<Rightarrow> unit prog" where
  "validate_columns required s =
     (let missing = filter (\<lambda>col. col \<notin> set (columns (frame s))) required
      in if missing \<noteq> [] then (Inl (KeyError_missing missing), s) else (Inr (), s))"

section \<open>Analysis functions\<close>

definition avg_price_by_bedrooms :: "series prog" where
  "avg_price_by_bedrooms s =
     (case getitem (frame s) ''bedrooms'' of
        Inl e \<Rightarrow> (Inl e, s)
      | Inr keys \<Rightarrow>
         (case getitem (frame s) ''price'' of
            Inl e \<Rightarrow> (Inl e, s)
          | Inr (StrCol _) \<Rightarrow> (Inl TypeError, s)
          | Inr (NumCol prices) \<Rightarrow>
             (case keys of
                NumCol bs \<Rightarrow> (Inr (NumIndexed (sort_index (groupby_mean bs prices))), s)
              | StrCol bs \<Rightarrow> (Inr (StrIndexed (sort_index (groupby_mean bs prices))), s))))"

definition compare_air_conditioning :: "(fl \<times> fl \<times> fl) prog" where
  "compare_air_conditioning s =
     (case getitem (frame s) ''airconditioning'' of
        Inl e \<Rightarrow> (Inl e, s)
      | Inr ac \<Rightarrow>
         (case loc_mean (frame s) (eq_mask ac ''yes'') ''price'' of
            Inl e \<Rightarrow> (Inl e, s)
          | Inr with_ac \<Rightarrow>
             (case loc_mean (frame s) (eq_mask ac ''no'') ''price'' of
                Inl e \<Rightarrow> (Inl e, s)
              | Inr without_ac \<Rightarrow>
                 (let diff = fsub with_ac without_ac
                  in (Inr (with_ac, without_ac, diff), s)))))"

definition area_price_correlation :: "fl prog" where
  "area_price_correlation s =
     (case getitem (frame s) ''area'' of
        Inl e \<Rightarrow> (Inl e, s)
      | Inr area \<Rightarrow>
         (case getitem (frame s) ''price'' of
            Inl e \<Rightarrow> (Inl e, s)
          | Inr price \<Rightarrow> (series_corr area price, s)))"

section \<open>Visualizer\<close>

definition plot_area_vs_price :: "string option \<Rightarrow> unit prog" where
  "plot_area_vs_price save_path s =
     (case getitem (frame s) ''area'' of
        Inl e \<Rightarrow> (Inl e, s)
      | Inr area \<Rightarrow>
         (case getitem (frame s) ''price'' of
            Inl e \<Rightarrow> (Inl e, s)
          | Inr price \<Rightarrow>
             (let fig = Figure area price ''Area (sq ft)'' ''Price'' ''House Area vs Price'';
                  s1 = (case save_path of
                          None \<Rightarrow> s
                        | Some path \<Rightarrow>
                            if path = [] then s
                            else print [Lit ''Saved plot to: '', Lit path]
                                   (s\<lparr>env := (env s)\<lparr>files := (files (env s))(path \<mapsto> ImageFile fig)\<rparr>\<rparr>))
              in (Inr (), s1\<lparr>env := (env s1)\<lparr>shown := shown (env s1) @ [fig]\<rparr>\<rparr>))))"

section \<open>Main program flow\<close>


definition FIGURE_FILE :: string where
  "FIGURE_FILE = ''area_vs_price.png''"



datatype key = NumKey real | StrKey string






section \<open>The vocabulary of the specification\<close>




fun column_keys :: "column \<Rightarrow> key option list" where
  \<comment> \<open>the entries of a column as keys\<close>
  "column_keys (NumCol xs) = map (map_option NumKey) xs"
| "column_keys (StrCol xs) = map (map_option StrKey) xs"







text \<open>
  What the console shows after each step of the run, step by step.
\<close>

definition overview_lines :: "table \<Rightarrow> line list" where
  "overview_lines df =
     [[Lit ''=== Dataset Overview ===''],
      [Lit ''Rows: '', NatF (nrows df)],
      [Lit ''Columns: '', NatF (length df)],
      [Lit (CHR 0x0A # ''Column names:'')],
      [NamesF (columns df)],
      [Lit (CHR 0x0A # ''First 5 rows:'')],
      [FrameF (head df)],
      [Lit (CHR 0x0A # ''Missing values per column:'')],
      [CountsF (isna_sum df)],
      []]"







definition printed :: "line list \<Rightarrow> session \<Rightarrow> session" where
  \<comment> \<open>the state after some lines have been printed\<close>
  "printed ls s = s\<lparr>env := (env s)\<lparr>stdout := stdout (env s) @ ls\<rparr>\<rparr>"

section \<open>An example frame\<close>

definition empty_world :: world where
  "empty_world = \<lparr>stdout = [], files = Map.empty, shown = []\<rparr>"

definition example_frame :: table where
  "example_frame =
     [(''bedrooms'', NumCol [Some 3, Some 2, None, Some 2, Some 4]),
      (''price'', NumCol [Some 300, Some 100, Some 7, Some 200, None]),
      (''airconditioning'', StrCol [Some ''yes'', Some ''no'', Some ''yes'', None, Some ''maybe'']),
      (''area'', NumCol [Some 30, Some 10, Some 20, Some 20, Some 50])]"

definition linear_session :: session where
  "linear_session =
     \<lparr>frame = [(''area'', NumCol [Some 1, Some 2, Some 3, None]),
               (''price'', NumCol [Some 2, Some 4, Some 6, Some 8])],
      env = empty_world\<rparr>"

definition example_session :: session where
  "example_session = \<lparr>frame = example_frame, env = empty_world\<rparr>"





section \<open>Rows, groups and means\<close>















lemma length_column_keys [simp]: "length (column_keys g) = column_len g"
  by (cases g) auto





section \<open>Grouped average\<close>

lemma scenario_grouped_average:
  "fst (avg_price_by_bedrooms
     \<lparr>frame = [(''bedrooms'', NumCol [Some 2, Some 2, Some 3]),
               (''price'', NumCol [Some 100, Some 200, Some 300])], env = w\<rparr>) =
   Inr (NumIndexed [(2, Fin 150), (3, Fin 300)])"
  by (simp add: avg_price_by_bedrooms_def getitem_def groupby_mean_def sort_index_def
      group_values_def series_mean_def)




section \<open>Category comparison\<close>

lemma scenario_compare_categories:
  "fst (compare_air_conditioning
     \<lparr>frame = [(''airconditioning'', StrCol [Some ''yes'', Some ''no'', Some ''yes'']),
               (''price'', NumCol [Some 100, Some 50, Some 300])], env = w\<rparr>) =
   Inr (Fin 200, Fin 50, Fin 150)"
  by (simp add: compare_air_conditioning_def getitem_def loc_mean_def eq_mask_def loc_rows_def
      series_mean_def)



section \<open>Correlation\<close>




























lemma scenario_perfect_correlation:
  "fst (area_price_correlation linear_session) = Inr (Fin 1)"
  by (simp add: area_price_correlation_def linear_session_def getitem_def series_corr_def
      nancorr_def np_corrcoef_def)







section \<open>Loader\<close>



section \<open>The frame and the state\<close>

lemma frame_print [simp]: "frame (print l s) = frame s"
  by (simp add: print_def)

lemma print_printed: "print l s = printed [l] s"
  by (simp add: print_def printed_def)

lemma printed_printed: "printed ls2 (printed ls1 s) = printed (ls1 @ ls2) s"
  by (simp add: printed_def)

lemma frame_printed [simp]: "frame (printed ls s) = frame s"
  by (simp add: printed_def)

lemma print_dataset_overview_printed:
  "print_dataset_overview s = printed (overview_lines (frame s)) s"
  by (simp add: print_dataset_overview_def Let_def print_printed printed_printed overview_lines_def)


lemma avg_price_by_bedrooms_state: "snd (avg_price_by_bedrooms s) = s"
  by (simp add: avg_price_by_bedrooms_def split: sum.splits column.splits)

lemma compare_air_conditioning_state: "snd (compare_air_conditioning s) = s"
  by (simp add: compare_air_conditioning_def Let_def split: sum.splits)

lemma area_price_correlation_state: "snd (area_price_correlation s) = s"
  by (simp add: area_price_correlation_def split: sum.splits)

lemma plot_area_vs_price_frame: "frame (snd (plot_area_vs_price save_path s)) = frame s"
  by (simp add: plot_area_vs_price_def Let_def split: sum.splits option.splits)

text \<open>
  C7. The reporter, the three analysis functions and the visualizer leave the frame as
  it was: the frame of the state after the call is the frame of the state before it.
\<close>

theorem table_never_mutated:
  "frame (print_dataset_overview s) = frame s \<and>
   frame (snd (avg_price_by_bedrooms s)) = frame s \<and>
   frame (snd (compare_air_conditioning s)) = frame s \<and>
   frame (snd (area_price_correlation s)) = frame s \<and>
   frame (snd (plot_area_vs_price save_path s)) = frame s"
  by (simp add: print_dataset_overview_printed avg_price_by_bedrooms_state
      compare_air_conditioning_state area_price_correlation_state plot_area_vs_price_frame)

theorem table_never_mutated_witness:
  "frame (print_dataset_overview example_session) = frame example_session \<and>
   frame (snd (avg_price_by_bedrooms example_session)) = frame example_session \<and>
   frame (snd (compare_air_conditioning example_session)) = frame example_session \<and>
   frame (snd (area_price_correlation example_session)) = frame example_session \<and>
   frame (snd (plot_area_vs_price (Some FIGURE_FILE) example_session)) = frame example_session"
  using table_never_mutated [of example_session "Some FIGURE_FILE"] .

lemma avg_price_by_bedrooms_frame:
  "frame s1 = frame s2 \<Longrightarrow> fst (avg_price_by_bedrooms s1) = fst (avg_price_by_bedrooms s2)"
  by (simp add: avg_price_by_bedrooms_def split: sum.splits column.splits)

lemma compare_air_conditioning_frame:
  "frame s1 = frame s2 \<Longrightarrow> fst (compare_air_conditioning s1) = fst (compare_air_conditioning s2)"
  by (simp add: compare_air_conditioning_def Let_def split: sum.splits)

lemma area_price_correlation_frame:
  "frame s1 = frame s2 \<Longrightarrow> fst (area_price_correlation s1) = fst (area_price_correlation s2)"
  by (simp add: area_price_correlation_def split: sum.splits)



section \<open>Main program flow\<close>










lemma avg_printed [simp]:
  "fst (avg_price_by_bedrooms (printed ls s)) = fst (avg_price_by_bedrooms s)"
  by (rule avg_price_by_bedrooms_frame) simp

lemma compare_printed [simp]:
  "fst (compare_air_conditioning (printed ls s)) = fst (compare_air_conditioning s)"
  by (rule compare_air_conditioning_frame) simp

lemma corr_printed [simp]:
  "fst (area_price_correlation (printed ls s)) = fst (area_price_correlation s)"
  by (rule area_price_correlation_frame) simp








section \<open>Properties of the validator\<close>

lemma validate_columns_result:
  "fst (validate_columns required s) =
     (if set required \<subseteq> set (columns (frame s)) then Inr ()
      else Inl (KeyError_missing (filter (\<lambda>col. col \<notin> set (columns (frame s))) required)))"
  by (auto simp: validate_columns_def Let_def filter_empty_conv)

text \<open>
  C5. The validator succeeds exactly when every required column is a column of the
  table; otherwise it fails with the error that carries the missing names, and every
  required name that is not a column of the table is among them (all of them, not just
  the first), and nothing else is.
\<close>

theorem validate_columns_iff:
  "(fst (validate_columns required s) = Inr () \<longleftrightarrow> set required \<subseteq> set (columns (frame s))) \<and>
   (fst (validate_columns required s) \<noteq> Inr () \<longrightarrow>
      (\<exists>missing. fst (validate_columns required s) = Inl (KeyError_missing missing) \<and>
         set missing = {col \<in> set required. col \<notin> set (columns (frame s))}))"
  by (auto simp: validate_columns_result)

theorem validate_columns_iff_witness:
  "fst (validate_columns [''bedrooms'', ''price'', ''airconditioning'', ''area'']
      \<lparr>frame = [(''area'', NumCol [Some 10]), (''bedrooms'', NumCol [Some 2])],
       env = \<lparr>stdout = [], files = Map.empty, shown = []\<rparr>\<rparr>) \<noteq> Inr () \<and>
   (\<exists>missing. fst (validate_columns [''bedrooms'', ''price'', ''airconditioning'', ''area'']
      \<lparr>frame = [(''area'', NumCol [Some 10]), (''bedrooms'', NumCol [Some 2])],
       env = \<lparr>stdout = [], files = Map.empty, shown = []\<rparr>\<rparr>) = Inl (KeyError_missing missing) \<and>
      set missing = {''price'', ''airconditioning''})"
proof -
  let ?s = "\<lparr>frame = [(''area'', NumCol [Some 10]), (''bedrooms'', NumCol [Some 2])],
       env = \<lparr>stdout = [], files = Map.empty, shown = []\<rparr>\<rparr>"
  let ?req = "[''bedrooms'', ''price'', ''airconditioning'', ''area'']"
  have ne: "fst (validate_columns ?req ?s) \<noteq> Inr ()"
    by (simp add: validate_columns_def columns_def)
  have "{col \<in> set ?req. col \<notin> set (columns (frame ?s))} = {''price'', ''airconditioning''}"
    by (auto simp: columns_def)
  with validate_columns_iff [of ?req ?s] ne show ?thesis
    by (simp only:) blast
qed

text \<open>
  C9. When the validator fails, the names in its error are the required names that are
  not columns of the table, in the order of the required list, and a name occurs among
  them as often as it occurs in the required list.
\<close>

theorem validate_columns_missing_order:
  "fst (validate_columns required s) = Inl e \<Longrightarrow>
     \<exists>missing. e = KeyError_missing missing \<and>
       missing = filter (\<lambda>col. col \<notin> set (columns (frame s))) required \<and>
       (\<forall>col. col \<notin> set (columns (frame s)) \<longrightarrow> count_list missing col = count_list required col) \<and>
       (\<forall>col. col \<in> set (columns (frame s)) \<longrightarrow> count_list missing col = 0)"
proof -
  assume a: "fst (validate_columns required s) = Inl e"
  let ?m = "filter (\<lambda>col. col \<notin> set (columns (frame s))) required"
  have e: "e = KeyError_missing ?m"
    using a by (auto simp: validate_columns_result split: if_splits)
  have c1: "count_list ?m col = count_list required col" if "col \<notin> set (columns (frame s))" for col
    using that by (induction required) auto
  have c2: "count_list ?m col = 0" if "col \<in> set (columns (frame s))" for col
    using that by (induction required) auto
  from e c1 c2 show ?thesis by blast
qed

theorem validate_columns_missing_order_witness:
  "fst (validate_columns [''price'', ''zip'', ''area'', ''price'']
      \<lparr>frame = [(''area'', NumCol []), (''zip'', StrCol [])],
       env = \<lparr>stdout = [], files = Map.empty, shown = []\<rparr>\<rparr>) =
     Inl (KeyError_missing [''price'', ''price''])"
proof -
  let ?s = "\<lparr>frame = [(''area'', NumCol []), (''zip'', StrCol [])],
       env = \<lparr>stdout = [], files = Map.empty, shown = []\<rparr>\<rparr>"
  let ?req = "[''price'', ''zip'', ''area'', ''price'']"
  have a: "fst (validate_columns ?req ?s) = Inl (KeyError_missing [''price'', ''price''])"
    by (simp add: validate_columns_def columns_def)
  from validate_columns_missing_order [OF a] a show ?thesis by simp
qed

end
